theory Spec2Isabelle
  imports Complex_Main
begin

section \<open>Python values, errors and native vectors\<close>

text \<open>
  Errors of the Python code are values: every \<open>raise\<close> of the sources, and every
  failing built-in operation the sources can reach (a missing dictionary key, an
  attribute of \<open>None\<close>, an operator applied to \<open>None\<close>, an index out of range), is a
  constructor of \<open>pyerror\<close>.
\<close>

datatype pyerror =
    PyException string
  | KeyError string
  | AttributeError string
  | TypeError string
  | ValueError string
  | NameError string
  | IndexError
  | SizeMismatch

text \<open>The Python values that are passed around untyped (keyword arguments).\<close>

datatype pyval = PyNone | PyBool bool | PyFloat real | PyStr string






text \<open>
  The entries of a native vector are double precision numbers; they are modelled by
  \<open>real\<close>, so rounding is not part of this development.
\<close>

type_synonym RVector = "real list"

text \<open>
  Modelled from the spec: the native vector type \<open>pg.RVector\<close> and its operator \<open>*\<close>
  are not among the Python sources. The spec writes the product as \<open>r\<circ>x\<close>, the
  elementwise product, which is defined for two vectors of one length; for operands
  of different lengths the model has no result (\<open>SizeMismatch\<close>).
\<close>

definition vmul :: "RVector \<Rightarrow> RVector \<Rightarrow> pyerror + RVector" where
  "vmul x y = (if length x = length y then Inr (map2 (*) x y) else Inl SizeMismatch)"

text \<open>
  The wrapped matrix \<open>A\<close> is an object of the native library: it is taken as it is, a
  record of its four methods. \<open>A.mult\<close> and \<open>A.transMult\<close> are assumed to return and to
  have no effect on the objects of this development.
\<close>

record MatrixBase =
  rows :: nat
  cols :: nat
  mult :: "RVector \<Rightarrow> RVector"
  transMult :: "RVector \<Rightarrow> RVector"

section \<open>core/matrix.py\<close>

text \<open>
  A method of a class is a function of the object and the arguments that returns the
  result together with the object after the call.
\<close>

subsection \<open>MultLeftMatrix\<close>

record MultLeftMatrix =
  ml_A :: MatrixBase
  ml_left :: RVector
  ml_verbose :: bool


definition MultLeft_rows :: "MultLeftMatrix \<Rightarrow> nat \<times> MultLeftMatrix" where
  "MultLeft_rows self = (rows (ml_A self), self)"

definition MultLeft_cols :: "MultLeftMatrix \<Rightarrow> nat \<times> MultLeftMatrix" where
  "MultLeft_cols self = (cols (ml_A self), self)"

definition MultLeft_mult :: "MultLeftMatrix \<Rightarrow> RVector \<Rightarrow> (pyerror + RVector) \<times> MultLeftMatrix" where
  "MultLeft_mult self x = (vmul (mult (ml_A self) x) (ml_left self), self)"

definition MultLeft_transMult :: "MultLeftMatrix \<Rightarrow> RVector \<Rightarrow> (pyerror + RVector) \<times> MultLeftMatrix" where
  "MultLeft_transMult self x =
     (case vmul x (ml_left self) of
        Inl e \<Rightarrow> (Inl e, self)
      | Inr v \<Rightarrow> (Inr (transMult (ml_A self) v), self))"

subsection \<open>MultRightMatrix\<close>

record MultRightMatrix =
  mr_A :: MatrixBase
  mr_r :: RVector

text \<open>\<open>pg.RVector(n, 1.0)\<close> is the vector of \<open>n\<close> entries \<open>1.0\<close>.\<close>

definition MultRightMatrix_init :: "MatrixBase \<Rightarrow> RVector option \<Rightarrow> MultRightMatrix" where
  "MultRightMatrix_init A r =
     (case r of
        None \<Rightarrow> \<lparr>mr_A = A, mr_r = replicate (cols A) 1\<rparr>
      | Some r' \<Rightarrow> \<lparr>mr_A = A, mr_r = r'\<rparr>)"

definition MultRight_mult :: "MultRightMatrix \<Rightarrow> RVector \<Rightarrow> (pyerror + RVector) \<times> MultRightMatrix" where
  "MultRight_mult self x =
     (case vmul x (mr_r self) of
        Inl e \<Rightarrow> (Inl e, self)
      | Inr v \<Rightarrow> (Inr (mult (mr_A self) v), self))"

definition MultRight_transMult :: "MultRightMatrix \<Rightarrow> RVector \<Rightarrow> (pyerror + RVector) \<times> MultRightMatrix" where
  "MultRight_transMult self x = (vmul (transMult (mr_A self) x) (mr_r self), self)"

definition MultRight_cols :: "MultRightMatrix \<Rightarrow> nat \<times> MultRightMatrix" where
  "MultRight_cols self = (cols (mr_A self), self)"

definition MultRight_rows :: "MultRightMatrix \<Rightarrow> nat \<times> MultRightMatrix" where
  "MultRight_rows self = (rows (mr_A self), self)"

subsection \<open>MultLeftRightMatrix\<close>

record MultLeftRightMatrix =
  mlr_A :: MatrixBase
  mlr_right :: RVector
  mlr_left :: RVector
  mlr_verbose :: bool


definition MultLeftRight_rows :: "MultLeftRightMatrix \<Rightarrow> nat \<times> MultLeftRightMatrix" where
  "MultLeftRight_rows self = (rows (mlr_A self), self)"

definition MultLeftRight_cols :: "MultLeftRightMatrix \<Rightarrow> nat \<times> MultLeftRightMatrix" where
  "MultLeftRight_cols self = (cols (mlr_A self), self)"

definition MultLeftRight_mult ::
  "MultLeftRightMatrix \<Rightarrow> RVector \<Rightarrow> (pyerror + RVector) \<times> MultLeftRightMatrix" where
  "MultLeftRight_mult self x =
     (case vmul x (mlr_right self) of
        Inl e \<Rightarrow> (Inl e, self)
      | Inr v \<Rightarrow> (vmul (mult (mlr_A self) v) (mlr_left self), self))"

definition MultLeftRight_transMult ::
  "MultLeftRightMatrix \<Rightarrow> RVector \<Rightarrow> (pyerror + RVector) \<times> MultLeftRightMatrix" where
  "MultLeftRight_transMult self x =
     (case vmul x (mlr_left self) of
        Inl e \<Rightarrow> (Inl e, self)
      | Inr v \<Rightarrow> (vmul (transMult (mlr_A self) v) (mlr_right self), self))"

subsection \<open>Cm05Matrix\<close>

text \<open>
  A two-dimensional numpy array: its shape and its entries. A one-dimensional numpy
  array is a list.
\<close>

record ndarray =
  shape0 :: nat
  shape1 :: nat
  item :: "nat \<Rightarrow> nat \<Rightarrow> real"

text \<open>
  \<open>np.dot\<close> of a vector and a matrix, and of a matrix and a vector (\<open>EV.dot(v)\<close>);
  numpy raises \<open>ValueError\<close> when the shapes are not aligned.
\<close>

definition np_dot_vm :: "real list \<Rightarrow> ndarray \<Rightarrow> pyerror + real list" where
  "np_dot_vm x M =
     (if length x = shape0 M
      then Inr (map (\<lambda>j. \<Sum>i\<leftarrow>[0..<shape0 M]. x ! i * item M i j) [0..<shape1 M])
      else Inl (ValueError ''shapes not aligned''))"

definition np_dot_mv :: "ndarray \<Rightarrow> real list \<Rightarrow> pyerror + real list" where
  "np_dot_mv M v =
     (if shape1 M = length v
      then Inr (map (\<lambda>i. \<Sum>j\<leftarrow>[0..<shape1 M]. item M i j * v ! j) [0..<shape0 M])
      else Inl (ValueError ''shapes not aligned''))"

text \<open>
  The product \<open>*\<close> of two one-dimensional numpy arrays is elementwise, and an array
  of length one is broadcast.
\<close>

definition np_mul :: "real list \<Rightarrow> real list \<Rightarrow> pyerror + real list" where
  "np_mul u v =
     (if length u = length v then Inr (map2 (*) u v)
      else if length u = 1 then Inr (map (\<lambda>b. hd u * b) v)
      else if length v = 1 then Inr (map (\<lambda>a. a * hd v) u)
      else Inl (ValueError ''operands could not be broadcast together''))"

record Cm05Matrix =
  cm_size :: nat
  cm_ew :: "real list"
  cm_EV :: ndarray
  cm_mul :: "real list"
  cm_A :: ndarray
  cm_verbose :: bool

text \<open>
  \<open>scipy.linalg.eigh\<close> is a parameter. The time measurement and the message printed
  by the constructor are left out. \<open>np.sqrt(1./ew)\<close> is taken over the reals (numpy
  gives \<open>inf\<close> or \<open>nan\<close> for an eigenvalue that is not positive).
\<close>

definition Cm05Matrix_init ::
  "(ndarray \<Rightarrow> real list \<times> ndarray) \<Rightarrow> ndarray \<Rightarrow> bool \<Rightarrow> pyerror + Cm05Matrix" where
  "Cm05Matrix_init eigh A verbose =
     (if shape0 A \<noteq> shape1 A
      then Inl (PyException ''Matrix must by square (and symmetric)!'')
      else (case eigh A of (ew, EV) \<Rightarrow>
        Inr \<lparr>cm_size = shape0 A, cm_ew = ew, cm_EV = EV,
             cm_mul = map (\<lambda>e. sqrt (1 / e)) ew, cm_A = A, cm_verbose = verbose\<rparr>))"

definition Cm05_rows :: "Cm05Matrix \<Rightarrow> nat \<times> Cm05Matrix" where
  "Cm05_rows self = (cm_size self, self)"

definition Cm05_cols :: "Cm05Matrix \<Rightarrow> nat \<times> Cm05Matrix" where
  "Cm05_cols self = (cm_size self, self)"

text \<open>
  \<open>EV.dot((np.dot(np.transpose(x), EV) * mul).T)\<close>: the transpose of a
  one-dimensional array is the array itself.
\<close>

definition Cm05_mult :: "Cm05Matrix \<Rightarrow> real list \<Rightarrow> (pyerror + real list) \<times> Cm05Matrix" where
  "Cm05_mult self x =
     (case np_dot_vm x (cm_EV self) of
        Inl e \<Rightarrow> (Inl e, self)
      | Inr u \<Rightarrow>
         (case np_mul u (cm_mul self) of
            Inl e \<Rightarrow> (Inl e, self)
          | Inr w \<Rightarrow> (np_dot_mv (cm_EV self) w, self)))"

definition Cm05_transMult :: "Cm05Matrix \<Rightarrow> real list \<Rightarrow> (pyerror + real list) \<times> Cm05Matrix" where
  "Cm05_transMult self x = Cm05_mult self x"

subsection \<open>Notions of the claims about the adapters\<close>






text \<open>A concrete wrapped matrix: the diagonal matrix with entries 2 and 3.\<close>

definition diag23 :: MatrixBase where
  "diag23 = \<lparr>rows = 2, cols = 2,
     mult = (\<lambda>x. map2 (*) [2, 3] x), transMult = (\<lambda>x. map2 (*) [2, 3] x)\<rparr>"

section \<open>mplviewer/dataview.py\<close>

subsection \<open>generateMatrix\<close>














subsection \<open>patchMatrix\<close>










section \<open>physics/ert/ves.py\<close>

subsection \<open>The objects of the native library\<close>

text \<open>
  The forward operator and the inversion are objects of the native library. Such an
  object is what it was constructed from and the list of the calls made on it, in
  order. The native calls are assumed to return. What \<open>INV.run()\<close> and
  \<open>INV.runChi1()\<close> return, \<open>FOP.response\<close>, the random draw \<open>pg.randn\<close>,
  \<open>np.median\<close> and \<open>np.max\<close> are parameters, collected in a record.
\<close>

text \<open>The argument \<open>z\<close>: a discretisation (a vector) or a number of layers.\<close>

datatype zarg = ZDisc "real list" | NLay int

datatype mesh = Mesh1DBlock zarg | Mesh1D nat

datatype fop_class = DC1dModelling | DC1dRhoModelling

datatype fop_call =
    SetMesh mesh
  | RegionSetParameters nat real real real string
  | RegionSetStartValue nat real

record fop =
  fop_class :: fop_class
  fop_nlay :: zarg
  fop_ab2 :: RVector
  fop_mn2 :: RVector
  fop_calls :: "fop_call list"

datatype inv_call =
    SetTransData
  | SetMarquardtScheme pyval
  | SetRobustData pyval
  | SetRelativeError real
  | SetModel RVector
  | SetLambda real
  | RunChi1
  | Run
  | EchoStatus

text \<open>
  \<open>pg.RInversion(data, self.FOP, False)\<close>: the inversion refers to the forward
  operator of the manager, which the manager's field \<open>FOP\<close> holds.
\<close>

record inv =
  inv_data :: RVector
  inv_calls :: "inv_call list"

record native =
  run_result :: "fop option \<Rightarrow> inv \<Rightarrow> RVector"
  runChi1_result :: "fop option \<Rightarrow> inv \<Rightarrow> RVector"
  response :: "fop \<Rightarrow> real list \<Rightarrow> RVector"
  randn :: "nat \<Rightarrow> RVector"
  np_median :: "RVector \<Rightarrow> real"
  np_max :: "RVector \<Rightarrow> real"

text \<open>
  Modelled from the spec: the quotient \<open>ab2/3\<close> of a vector and a number is taken
  elementwise, by the vector type, which is not among the Python sources.
\<close>

definition vdiv :: "RVector \<Rightarrow> real \<Rightarrow> RVector" where
  "vdiv x c = map (\<lambda>a. a / c) x"

subsection \<open>VESManager\<close>

text \<open>
  The bounds are the triples \<open>(start, min, max)\<close> and \<open>trans\<close> is the pair of the two
  transformation names, as the defaults of \<open>createModelTrans\<close> have them. The
  attributes \<open>dataTrans\<close>, \<open>dataToFit\<close> and \<open>resDistribution\<close> do not exist before
  they are assigned: they are \<open>None\<close> until then. \<open>dataTrans\<close> is a fresh
  \<open>pg.RTransLog()\<close>, a unit value.
\<close>

record VESManager =
  verbose :: bool
  Type :: string
  ab2 :: RVector
  mn2 :: RVector
  Z :: zarg
  FOP :: "fop option"
  INV :: "inv option"
  startmodel :: "RVector option"
  thkBounds :: "real \<times> real \<times> real"
  rhoBounds :: "real \<times> real \<times> real"
  trans' :: "string \<times> string"
  dataTrans :: "unit option"
  dataToFit :: "RVector option"
  resDistribution :: "RVector option"

text \<open>
  A method is a function of the object and the arguments; it returns the result, or
  the error raised, together with the object as the call leaves it. \<open>seq\<close> runs a
  step and then the rest, and stops at the first error.
\<close>

type_synonym 'a action = "VESManager \<Rightarrow> (pyerror + 'a) \<times> VESManager"

definition seq :: "'a action \<Rightarrow> ('a \<Rightarrow> 'b action) \<Rightarrow> 'b action" where
  "seq m f s = (case m s of (Inl e, s') \<Rightarrow> (Inl e, s') | (Inr a, s') \<Rightarrow> f a s')"

text \<open>A call on \<open>self.FOP\<close> or on \<open>self.INV\<close>: an attribute of \<open>None\<close> is an error.\<close>

definition FOP_call :: "string \<Rightarrow> fop_call \<Rightarrow> unit action" where
  "FOP_call name c s =
     (case FOP s of
        None \<Rightarrow> (Inl (AttributeError name), s)
      | Some f \<Rightarrow> (Inr (), s\<lparr>FOP := Some (f\<lparr>fop_calls := fop_calls f @ [c]\<rparr>)\<rparr>))"


definition applyModelTrans :: "unit action" where
  "applyModelTrans self =
     (if FOP self = None
      then (Inl (PyException
        ''initialize forward operator before appending proper boundaries for the model transformation''),
        self)
      else if Type self = ''smooth''
      then (case rhoBounds self of (r0, r1, r2) \<Rightarrow>
              FOP_call ''region'' (RegionSetParameters 0 r0 r1 r2 (snd (trans' self))) self)
      else if Type self = ''block''
      then (case (thkBounds self, rhoBounds self) of ((t0, t1, t2), (r0, r1, r2)) \<Rightarrow>
              seq (FOP_call ''region'' (RegionSetParameters 0 t0 t1 t2 (fst (trans' self))))
                (\<lambda>_. FOP_call ''region'' (RegionSetParameters 1 r0 r1 r2 (snd (trans' self))))
                self)
      else (Inr (), self))"

definition createModelTrans ::
  "VESManager \<Rightarrow> real \<times> real \<times> real \<Rightarrow> real \<times> real \<times> real \<Rightarrow> string \<times> string \<Rightarrow>
   (pyerror + unit) \<times> VESManager" where
  "createModelTrans self thkBounds' modelBounds trans'' =
     (let self = self\<lparr>thkBounds := thkBounds', rhoBounds := modelBounds, trans' := trans''\<rparr>
      in if FOP self \<noteq> None then applyModelTrans self else (Inr (), self))"

text \<open>
  The constructor. The attributes that \<open>createModelTrans\<close> assigns do not exist
  before that call; the record is built with the values that the call assigns.
\<close>

definition VESManager_init ::
  "RVector \<Rightarrow> zarg \<Rightarrow> RVector option \<Rightarrow> string \<Rightarrow> bool \<Rightarrow> pyerror + VESManager" where
  "VESManager_init ab2' z mn2' Type' verbose' =
     (let self = \<lparr>verbose = verbose', Type = Type', ab2 = ab2',
                  mn2 = (case mn2' of None \<Rightarrow> vdiv ab2' 3 | Some m \<Rightarrow> m),
                  Z = z, FOP = None, INV = None, startmodel = None,
                  thkBounds = (10, 0.1, 30), rhoBounds = (10, 1.0, 10000),
                  trans' = (''log'', ''log''),
                  dataTrans = None, dataToFit = None, resDistribution = None\<rparr>
      in (case createModelTrans self (10, 0.1, 30) (10, 1.0, 10000) (''log'', ''log'') of
            (Inl e, self') \<Rightarrow> Inl e
          | (Inr u, self') \<Rightarrow> Inr self'))"


text \<open>
  \<open>simulate\<close> is a static method. \<open>synmodel[0]\<close> and \<open>synmodel[1]\<close> raise
  \<open>IndexError\<close> on a shorter list; \<open>thk + res\<close> joins the two lists. With
  \<open>ab2=None\<close> the quotient \<open>ab2/3\<close>, or else the native constructor, is a type error.
\<close>

definition simulate ::
  "native \<Rightarrow> real list list \<Rightarrow> RVector option \<Rightarrow> RVector option \<Rightarrow> real \<Rightarrow> pyerror + RVector" where
  "simulate pg synmodel ab2' mn2' errPerc =
     (if length synmodel < 2 then Inl IndexError
      else (let thk = synmodel ! 0; res = synmodel ! 1 in
        (case ab2' of
           None \<Rightarrow> Inl (TypeError ''ab2'')
         | Some ab2' \<Rightarrow>
            (let mn2' = (case mn2' of None \<Rightarrow> vdiv ab2' 3 | Some m \<Rightarrow> m);
                 FOP' = \<lparr>fop_class = DC1dModelling, fop_nlay = NLay (int (length res)),
                          fop_ab2 = ab2', fop_mn2 = mn2', fop_calls = []\<rparr>;
                 syndata = response pg FOP' (thk @ res)
             in vmul syndata
                  (map (\<lambda>g. g * errPerc / 100 + 1) (randn pg (length syndata)))))))"








subsection \<open>Notions of the claims about the manager\<close>







section \<open>Concrete objects\<close>

text \<open>Adapters over the diagonal matrix, and a one by one array with its decomposition.\<close>

definition unit_array :: ndarray where
  "unit_array = \<lparr>shape0 = 1, shape1 = 1, item = (\<lambda>i j. 1)\<rparr>"

definition unit_eigh :: "ndarray \<Rightarrow> real list \<times> ndarray" where
  "unit_eigh M = ([1], unit_array)"

definition unit_cm :: Cm05Matrix where
  "unit_cm = \<lparr>cm_size = 1, cm_ew = [1], cm_EV = unit_array, cm_mul = [1],
     cm_A = unit_array, cm_verbose = False\<rparr>"








section \<open>The matrix adapters\<close>

subsection \<open>Vectors\<close>

lemma map2_mult_ones: "map2 (*) x (replicate (length x) (1::real)) = x"
  by (induction x) simp_all








subsection \<open>What the methods return\<close>

text \<open>
  Claim C1. For a \<open>MultRightMatrix\<close> constructed from \<open>A\<close> and a vector \<open>r\<close> of
  length \<open>A.cols()\<close>, \<open>mult(x)\<close> returns \<open>A.mult(x * r)\<close> for every \<open>x\<close> of length
  \<open>A.cols()\<close>; with \<open>r\<close> omitted, \<open>r\<close> is the vector of \<open>A.cols()\<close> ones and
  \<open>mult(x)\<close> returns \<open>A.mult(x)\<close>.
\<close>

theorem MultRight_mult_spec:
  assumes "length x = cols A"
  shows "(length r = cols A \<longrightarrow>
            fst (MultRight_mult (MultRightMatrix_init A (Some r)) x) = Inr (mult A (map2 (*) x r))) \<and>
         mr_r (MultRightMatrix_init A None) = replicate (cols A) 1 \<and>
         fst (MultRight_mult (MultRightMatrix_init A None) x) = Inr (mult A x)"
proof -
  have "map2 (*) x (replicate (cols A) 1) = x"
    using map2_mult_ones [of x] assms by simp
  then show ?thesis
    using assms by (simp add: MultRight_mult_def MultRightMatrix_init_def vmul_def)
qed

theorem MultRight_mult_spec_witness:
  "length [5, 7 :: real] = cols diag23 \<and> length [1, 2 :: real] = cols diag23 \<and>
   fst (MultRight_mult (MultRightMatrix_init diag23 (Some [1, 2])) [5, 7]) = Inr [10, 42] \<and>
   fst (MultRight_mult (MultRightMatrix_init diag23 None) [5, 7]) = Inr [10, 21]"
  using MultRight_mult_spec [of "[5, 7]" diag23 "[1, 2]"]
  by (simp add: diag23_def)

text \<open>
  Claim C4. The adapters are stateless: \<open>rows\<close>, \<open>cols\<close>, \<open>mult\<close> and \<open>transMult\<close>
  of each of the four classes leave the object, that is every stored field, as it
  was, for every argument.
\<close>

theorem adapters_stateless:
  "snd (MultLeft_rows ml) = ml \<and> snd (MultLeft_cols ml) = ml \<and>
   snd (MultLeft_mult ml x) = ml \<and> snd (MultLeft_transMult ml x) = ml \<and>
   snd (MultRight_rows mr) = mr \<and> snd (MultRight_cols mr) = mr \<and>
   snd (MultRight_mult mr x) = mr \<and> snd (MultRight_transMult mr x) = mr \<and>
   snd (MultLeftRight_rows mlr) = mlr \<and> snd (MultLeftRight_cols mlr) = mlr \<and>
   snd (MultLeftRight_mult mlr x) = mlr \<and> snd (MultLeftRight_transMult mlr x) = mlr \<and>
   snd (Cm05_rows cm) = cm \<and> snd (Cm05_cols cm) = cm \<and>
   snd (Cm05_mult cm x) = cm \<and> snd (Cm05_transMult cm x) = cm"
  by (simp add: MultLeft_rows_def MultLeft_cols_def MultLeft_mult_def MultLeft_transMult_def
      MultRight_rows_def MultRight_cols_def MultRight_mult_def MultRight_transMult_def
      MultLeftRight_rows_def MultLeftRight_cols_def MultLeftRight_mult_def
      MultLeftRight_transMult_def Cm05_rows_def Cm05_cols_def Cm05_mult_def Cm05_transMult_def
      split: sum.split)

text \<open>
  Claim C5. \<open>rows()\<close> and \<open>cols()\<close> of \<open>MultLeftMatrix\<close>, \<open>MultRightMatrix\<close> and
  \<open>MultLeftRightMatrix\<close> return \<open>A.rows()\<close> and \<open>A.cols()\<close> of the wrapped matrix;
  those of a \<open>Cm05Matrix\<close> constructed from \<open>A\<close> both return the number of rows of
  \<open>A\<close>, which is square.
\<close>

theorem dimension_queries_delegate:
  "fst (MultLeft_rows ml) = rows (ml_A ml) \<and> fst (MultLeft_cols ml) = cols (ml_A ml) \<and>
   fst (MultRight_rows mr) = rows (mr_A mr) \<and> fst (MultRight_cols mr) = cols (mr_A mr) \<and>
   fst (MultLeftRight_rows mlr) = rows (mlr_A mlr) \<and>
   fst (MultLeftRight_cols mlr) = cols (mlr_A mlr) \<and>
   (Cm05Matrix_init eigh A vb = Inr cm \<longrightarrow>
      cm_A cm = A \<and> shape0 A = shape1 A \<and>
      fst (Cm05_rows cm) = shape0 A \<and> fst (Cm05_cols cm) = shape0 A)"
  by (auto simp add: MultLeft_rows_def MultLeft_cols_def MultRight_rows_def MultRight_cols_def
      MultLeftRight_rows_def MultLeftRight_cols_def Cm05_rows_def Cm05_cols_def
      Cm05Matrix_init_def split: if_splits prod.splits)

theorem dimension_queries_delegate_witness:
  "Cm05Matrix_init unit_eigh unit_array False = Inr unit_cm \<and>
   fst (Cm05_rows unit_cm) = 1 \<and> fst (Cm05_cols unit_cm) = 1"
proof -
  have h: "Cm05Matrix_init unit_eigh unit_array False = Inr unit_cm"
    by (simp add: Cm05Matrix_init_def unit_eigh_def unit_array_def unit_cm_def)
  show ?thesis
    using h dimension_queries_delegate [of _ _ _ unit_eigh unit_array False unit_cm]
    by (simp add: unit_array_def)
qed

subsection \<open>The transpose\<close>










subsection \<open>Linearity\<close>







section \<open>generateMatrix\<close>
















section \<open>patchMatrix\<close>


section \<open>The VES manager\<close>

text \<open>
  Claim C6. The constructor of \<open>VESManager\<close> stores \<open>ab2/3\<close>, elementwise, as
  \<open>self.mn2\<close> when \<open>mn2\<close> is \<open>None\<close>, and the given \<open>mn2\<close> otherwise;
  \<open>VESManager.simulate\<close> with \<open>mn2=None\<close> computes what it computes with
  \<open>mn2 = ab2/3\<close>, and a given \<open>mn2\<close> is passed unchanged to the forward operator.
\<close>

theorem mn2_default:
  "(\<exists>s. VESManager_init a2 z None T vb = Inr s \<and> mn2 s = vdiv a2 3 \<and> ab2 s = a2) \<and>
   (\<exists>s. VESManager_init a2 z (Some m) T vb = Inr s \<and> mn2 s = m \<and> ab2 s = a2) \<and>
   vdiv a2 3 = map (\<lambda>a. a / 3) a2 \<and>
   simulate pg syn (Some a2) None ep = simulate pg syn (Some a2) (Some (vdiv a2 3)) ep \<and>
   simulate pg syn (Some a2) (Some m) ep =
     (if length syn < 2 then Inl IndexError
      else (let syndata = response pg
                  \<lparr>fop_class = DC1dModelling, fop_nlay = NLay (int (length (syn ! 1))),
                   fop_ab2 = a2, fop_mn2 = m, fop_calls = []\<rparr> (syn ! 0 @ syn ! 1)
            in vmul syndata (map (\<lambda>g. g * ep / 100 + 1) (randn pg (length syndata)))))"
  by (simp add: VESManager_init_def createModelTrans_def simulate_def vdiv_def Let_def)

subsection \<open>Steps of the manager\<close>























subsection \<open>createINV and invert\<close>





















end
